theory Spec2Isabelle
  imports Main
begin

section \<open>Python values used by the code\<close>

text \<open>
  The exceptions the modelled code can raise. A function that can raise returns
  \<open>error + 'a\<close>, with \<open>Inl\<close> for the exception.
\<close>

datatype error = IndexError | ValueError | TypeError

abbreviation TAB :: char where "TAB \<equiv> CHR 0x09"
abbreviation NL :: char where "NL \<equiv> CHR 0x0A"

text \<open>\<open>xs[i]\<close> for a non-negative index: IndexError out of range.\<close>

definition list_get :: "'a list \<Rightarrow> nat \<Rightarrow> error + 'a" where
  "list_get xs i = (if i < length xs then Inr (xs ! i) else Inl IndexError)"

text \<open>
  \<open>delimiter.join(items)\<close>. An attribute that is still \<open>None\<close> makes Python raise
  TypeError, so the items are optional strings.
\<close>

fun join :: "string \<Rightarrow> string list \<Rightarrow> string" where
  "join d [] = []"
| "join d [x] = x"
| "join d (x # y # ys) = x @ d @ join d (y # ys)"

definition py_join :: "string \<Rightarrow> string option list \<Rightarrow> error + string" where
  "py_join d items = (case those items of None \<Rightarrow> Inl TypeError | Some xs \<Rightarrow> Inr (join d xs))"

text \<open>
  A Python dict keeps its keys in insertion order; assigning to a key that is present
  replaces the value in place.
\<close>

type_synonym ('k, 'v) dict = "('k \<times> 'v) list"

definition dict_contains :: "('k, 'v) dict \<Rightarrow> 'k \<Rightarrow> bool" where
  "dict_contains d k = (k \<in> set (map fst d))"

definition dict_get :: "('k, 'v) dict \<Rightarrow> 'k \<Rightarrow> 'v option" where
  "dict_get d k = map_of d k"

definition dict_set :: "('k, 'v) dict \<Rightarrow> 'k \<Rightarrow> 'v \<Rightarrow> ('k, 'v) dict" where
  "dict_set d k v =
     (if dict_contains d k then map (\<lambda>(k', v'). if k' = k then (k', v) else (k', v')) d
      else d @ [(k, v)])"

text \<open>
  \<open>int(s)\<close> on a string whose characters are code points below 256. The whitespace that
  \<open>int\<close> skips at both ends is tab to carriage return (9 to 13) and the space, and the
  two spaces above ASCII in this range, U+0085 and U+00A0; the separators 28 to 31 are not
  skipped. One sign is allowed, then decimal digits, single underscores between digits;
  more than 4300 digits (the default limit of CPython 3.11) and anything else is
  ValueError.
\<close>

definition py_isspace :: "char \<Rightarrow> bool" where
  "py_isspace c = (let n = (of_char c :: nat) in (9 \<le> n \<and> n \<le> 13) \<or> n = 32 \<or> n = 133 \<or> n = 160)"

definition strip :: "string \<Rightarrow> string" where
  "strip s = rev (dropWhile py_isspace (rev (dropWhile py_isspace s)))"

definition digit_of :: "char \<Rightarrow> nat option" where
  "digit_of c = (let n = (of_char c :: nat) in if 48 \<le> n \<and> n \<le> 57 then Some (n - 48) else None)"

fun parse_digits :: "nat \<Rightarrow> string \<Rightarrow> nat option" where
  "parse_digits acc [] = Some acc"
| "parse_digits acc [c] = (case digit_of c of None \<Rightarrow> None | Some v \<Rightarrow> Some (acc * 10 + v))"
| "parse_digits acc (c # d # ds) =
     (if c = CHR ''_'' then
        (case digit_of d of None \<Rightarrow> None | Some v \<Rightarrow> parse_digits (acc * 10 + v) ds)
      else (case digit_of c of None \<Rightarrow> None | Some v \<Rightarrow> parse_digits (acc * 10 + v) (d # ds)))"

definition max_str_digits :: nat where
  "max_str_digits = 4300"

definition count_digits :: "string \<Rightarrow> nat" where
  "count_digits s = length (filter (\<lambda>c. digit_of c \<noteq> None) s)"

definition parse_unsigned :: "string \<Rightarrow> nat option" where
  "parse_unsigned s =
     (if count_digits s > max_str_digits then None
      else
        (case s of [] \<Rightarrow> None
         | c # cs \<Rightarrow> (case digit_of c of None \<Rightarrow> None | Some v \<Rightarrow> parse_digits v cs)))"

definition py_int :: "string \<Rightarrow> error + int" where
  "py_int s =
     (case strip s of
        [] \<Rightarrow> Inl ValueError
      | c # cs \<Rightarrow>
          (if c = CHR ''-'' then
             (case parse_unsigned cs of None \<Rightarrow> Inl ValueError | Some n \<Rightarrow> Inr (- int n))
           else if c = CHR ''+'' then
             (case parse_unsigned cs of None \<Rightarrow> Inl ValueError | Some n \<Rightarrow> Inr (int n))
           else
             (case parse_unsigned (c # cs) of None \<Rightarrow> Inl ValueError | Some n \<Rightarrow> Inr (int n))))"

section \<open>AmrParser.is_valid\<close>

text \<open>
  \<open>for i, h in enumerate(self.header): if h != self.default_header[i]: return False\<close>,
  then \<open>return True\<close>. The loop runs over the actual header and indexes the expected one;
  the first argument of \<open>is_valid_loop\<close> is the index \<open>i\<close>.
\<close>

fun is_valid_loop :: "nat \<Rightarrow> string list \<Rightarrow> string list \<Rightarrow> error + bool" where
  "is_valid_loop i [] default_header = Inr True"
| "is_valid_loop i (h # hs) default_header =
     (case list_get default_header i of
        Inl e \<Rightarrow> Inl e
      | Inr d \<Rightarrow> if h \<noteq> d then Inr False else is_valid_loop (Suc i) hs default_header)"

definition is_valid :: "string list \<Rightarrow> string list \<Rightarrow> error + bool" where
  "is_valid header default_header = is_valid_loop 0 header default_header"

section \<open>The result classes\<close>

text \<open>
  The four classes AbricateResult097, AbricateResult098, StaramrResult and RgiResult. An
  object is its class, its attributes in the order \<open>__init__\<close> assigns them (every one
  \<open>None\<close> at first) and the header list it was given; \<open>delimiter\<close> is the tab in all four.
\<close>

datatype result_class = AbricateResult097 | AbricateResult098 | StaramrResult | RgiResult

record amr_result =
  cls :: result_class
  attrs :: "(string, string option) dict"
  header :: "string list"

fun init_attrs :: "result_class \<Rightarrow> string list" where
  "init_attrs AbricateResult097 =
     [''file'', ''sequence'', ''start'', ''end'', ''gene'', ''coverage'', ''coverage_map'',
      ''gaps'', ''perc_coverage'', ''perc_identity'', ''database'', ''accession'', ''product'']"
| "init_attrs AbricateResult098 =
     [''file'', ''sequence'', ''start'', ''end'', ''strand'', ''gene'', ''coverage'',
      ''coverage_map'', ''gaps'', ''perc_coverage'', ''perc_identity'', ''database'',
      ''accession'', ''product'', ''resistance'']"
| "init_attrs StaramrResult =
     [''file'', ''sequence'', ''start'', ''end'', ''gene'', ''coverage'', ''perc_coverage'',
      ''perc_identity'', ''accession'', ''resistance'']"
| "init_attrs RgiResult =
     [''orf_id'', ''contig'', ''start'', ''end'', ''orientation'', ''cut_off'',
      ''pass_bitscore'', ''best_hit_bitscore'', ''gene'', ''best_identities'', ''aro'',
      ''model_type'', ''snps_in_best_hit_aro'', ''other_snps'', ''drug_class'',
      ''resistance_mechanism'', ''amr_gene_family'', ''predicted_dna'', ''predicted_protein'',
      ''card_protein_sequence'', ''percentage_length_of_reference_sequence'', ''id'',
      ''model_id'', ''nudged'', ''note'']"

definition new_result :: "result_class \<Rightarrow> string list \<Rightarrow> amr_result" where
  "new_result c hdr = \<lparr>cls = c, attrs = map (\<lambda>n. (n, None)) (init_attrs c), header = hdr\<rparr>"

text \<open>
  \<open>setattr(obj, name, value)\<close> and the read \<open>obj.name\<close>. Every attribute the code reads
  (\<open>gene\<close>, the attributes \<open>__str__\<close> joins) is assigned by \<open>__init__\<close>, so a read never
  fails on an object of these classes; the model reads an attribute that was never
  assigned as \<open>None\<close>.
\<close>

definition setattr :: "amr_result \<Rightarrow> string \<Rightarrow> string \<Rightarrow> amr_result" where
  "setattr r name v = r\<lparr>attrs := dict_set (attrs r) name (Some v)\<rparr>"

definition getattr :: "amr_result \<Rightarrow> string \<Rightarrow> string option" where
  "getattr r name = (case dict_get (attrs r) name of None \<Rightarrow> None | Some v \<Rightarrow> v)"

text \<open>The attributes each class's \<open>__str__\<close> joins with the delimiter, in its order.\<close>

fun str_attrs :: "result_class \<Rightarrow> string list" where
  "str_attrs AbricateResult097 =
     [''file'', ''sequence'', ''start'', ''end'', ''gene'', ''coverage'', ''coverage_map'',
      ''gaps'', ''perc_coverage'', ''perc_identity'', ''database'', ''accession'', ''product'']"
| "str_attrs AbricateResult098 =
     [''file'', ''sequence'', ''start'', ''end'', ''strand'', ''gene'', ''coverage'',
      ''coverage_map'', ''gaps'', ''perc_coverage'', ''perc_identity'', ''database'',
      ''accession'', ''product'', ''resistance'']"
| "str_attrs StaramrResult =
     [''file'', ''gene'', ''resistance'', ''perc_identity'', ''perc_coverage'', ''coverage'',
      ''sequence'', ''start'', ''end'', ''accession'']"
| "str_attrs RgiResult =
     [''orf_id'', ''contig'', ''start'', ''end'', ''orientation'', ''cut_off'',
      ''pass_bitscore'', ''best_hit_bitscore'', ''gene'', ''best_identities'', ''aro'',
      ''model_type'', ''snps_in_best_hit_aro'', ''other_snps'', ''drug_class'',
      ''resistance_mechanism'', ''amr_gene_family'', ''predicted_dna'', ''predicted_protein'',
      ''card_protein_sequence'', ''percentage_length_of_reference_sequence'', ''id'',
      ''model_id'', ''nudged'', ''note'']"

definition str_result :: "amr_result \<Rightarrow> error + string" where
  "str_result r = py_join [TAB] (map (getattr r) (str_attrs (cls r)))"

text \<open>The list comprehension \<open>[str(r) for r in results]\<close>: the first exception ends it.\<close>

fun str_results :: "amr_result list \<Rightarrow> error + string list" where
  "str_results [] = Inr []"
| "str_results (r # rs) =
     (case str_result r of
        Inl e \<Rightarrow> Inl e
      | Inr s \<Rightarrow> (case str_results rs of Inl e \<Rightarrow> Inl e | Inr ss \<Rightarrow> Inr (s # ss)))"

section \<open>The dialect parsers\<close>

text \<open>
  A parser object carries \<open>minimum_num_columns\<close>, \<open>default_header\<close> and
  \<open>column_to_variable_mapping\<close>, set by its \<open>__init__\<close>, and builds objects of one result
  class.
\<close>

record parser =
  result_class :: result_class
  minimum_num_columns :: nat
  default_header :: "string list"
  column_to_variable_mapping :: "(string, string) dict"

definition Abricate097 :: parser where
  "Abricate097 =
     \<lparr>result_class = AbricateResult097,
      minimum_num_columns = 13,
      default_header =
        [''#FILE'', ''SEQUENCE'', ''START'', ''END'', ''GENE'', ''COVERAGE'', ''COVERAGE_MAP'',
         ''GAPS'', ''%COVERAGE'', ''%IDENTITY'', ''DATABASE'', ''ACCESSION'', ''PRODUCT''],
      column_to_variable_mapping =
        [(''#FILE'', ''file''), (''SEQUENCE'', ''sequence''), (''START'', ''start''),
         (''END'', ''end''), (''GENE'', ''gene''), (''COVERAGE'', ''coverage''),
         (''COVERAGE_MAP'', ''coverage_map''), (''GAPS'', ''gaps''),
         (''%COVERAGE'', ''perc_coverage''), (''%IDENTITY'', ''perc_identity''),
         (''DATABASE'', ''database''), (''ACCESSION'', ''accession''),
         (''PRODUCT'', ''product'')]\<rparr>"

text \<open>
  The parser classes Abricate098, Staramr and Rgi, which IdentifyResults imports, are not
  among the source files; the result classes they fill are. Section 4.2 of the
  specification gives every variant an expected header, a column-to-field mapping and a
  minimum column count, and one parse routine (that of Abricate097 above); section 3
  gives the fields of each record shape and their number. Each table below has one
  column per field of section 3, mapped to the attribute of the result class that holds
  the field, and the column count as the minimum; the column names are those of the
  tool's output.
\<close>

text \<open>
  Modelled from the spec: the parser class Abricate098 (section 3, AbricateCurrent: the
  legacy fields plus strand and resistance, 15 fields).
\<close>

definition Abricate098 :: parser where
  "Abricate098 =
     \<lparr>result_class = AbricateResult098,
      minimum_num_columns = 15,
      default_header =
        [''#FILE'', ''SEQUENCE'', ''START'', ''END'', ''STRAND'', ''GENE'', ''COVERAGE'',
         ''COVERAGE_MAP'', ''GAPS'', ''%COVERAGE'', ''%IDENTITY'', ''DATABASE'', ''ACCESSION'',
         ''PRODUCT'', ''RESISTANCE''],
      column_to_variable_mapping =
        [(''#FILE'', ''file''), (''SEQUENCE'', ''sequence''), (''START'', ''start''),
         (''END'', ''end''), (''STRAND'', ''strand''), (''GENE'', ''gene''),
         (''COVERAGE'', ''coverage''), (''COVERAGE_MAP'', ''coverage_map''), (''GAPS'', ''gaps''),
         (''%COVERAGE'', ''perc_coverage''), (''%IDENTITY'', ''perc_identity''),
         (''DATABASE'', ''database''), (''ACCESSION'', ''accession''),
         (''PRODUCT'', ''product''), (''RESISTANCE'', ''resistance'')]\<rparr>"

text \<open>
  Modelled from the spec: the parser class Staramr (section 3, StarAmr: file, gene,
  resistance, percent identity, percent coverage, coverage, sequence, start, end,
  accession, 10 fields).
\<close>

definition Staramr :: parser where
  "Staramr =
     \<lparr>result_class = StaramrResult,
      minimum_num_columns = 10,
      default_header =
        [''Isolate ID'', ''Gene'', ''Predicted Phenotype'', ''%Identity'', ''%Overlap'',
         ''HSP Length/Total Length'', ''Contig'', ''Start'', ''End'', ''Accession''],
      column_to_variable_mapping =
        [(''Isolate ID'', ''file''), (''Gene'', ''gene''), (''Predicted Phenotype'', ''resistance''),
         (''%Identity'', ''perc_identity''), (''%Overlap'', ''perc_coverage''),
         (''HSP Length/Total Length'', ''coverage''), (''Contig'', ''sequence''),
         (''Start'', ''start''), (''End'', ''end''), (''Accession'', ''accession'')]\<rparr>"

text \<open>
  Modelled from the spec: the parser class Rgi (section 3, Rgi: 24 fields). The 24
  columns are the first 24 of the tool's output, mapped to the first 24 attributes that
  RgiResult declares; the class declares and joins a 25th attribute, \<open>note\<close>, which no
  column of this table fills.
\<close>

definition Rgi :: parser where
  "Rgi =
     \<lparr>result_class = RgiResult,
      minimum_num_columns = 24,
      default_header =
        [''ORF_ID'', ''Contig'', ''Start'', ''Stop'', ''Orientation'', ''Cut_Off'',
         ''Pass_Bitscore'', ''Best_Hit_Bitscore'', ''Best_Hit_ARO'', ''Best_Identities'', ''ARO'',
         ''Model_type'', ''SNPs_in_Best_Hit_ARO'', ''Other_SNPs'', ''Drug Class'',
         ''Resistance Mechanism'', ''AMR Gene Family'', ''Predicted_DNA'', ''Predicted_Protein'',
         ''CARD_Protein_Sequence'', ''Percentage Length of Reference Sequence'', ''ID'',
         ''Model_ID'', ''Nudged''],
      column_to_variable_mapping =
        [(''ORF_ID'', ''orf_id''), (''Contig'', ''contig''), (''Start'', ''start''),
         (''Stop'', ''end''), (''Orientation'', ''orientation''), (''Cut_Off'', ''cut_off''),
         (''Pass_Bitscore'', ''pass_bitscore''), (''Best_Hit_Bitscore'', ''best_hit_bitscore''),
         (''Best_Hit_ARO'', ''gene''), (''Best_Identities'', ''best_identities''),
         (''ARO'', ''aro''), (''Model_type'', ''model_type''),
         (''SNPs_in_Best_Hit_ARO'', ''snps_in_best_hit_aro''), (''Other_SNPs'', ''other_snps''),
         (''Drug Class'', ''drug_class''), (''Resistance Mechanism'', ''resistance_mechanism''),
         (''AMR Gene Family'', ''amr_gene_family''), (''Predicted_DNA'', ''predicted_dna''),
         (''Predicted_Protein'', ''predicted_protein''),
         (''CARD_Protein_Sequence'', ''card_protein_sequence''),
         (''Percentage Length of Reference Sequence'', ''percentage_length_of_reference_sequence''),
         (''ID'', ''id''), (''Model_ID'', ''model_id''), (''Nudged'', ''nudged'')]\<rparr>"

text \<open>
  \<open>populate_results\<close>, as Abricate097 has it. \<open>file_contents\<close> is the list of rows that
  \<open>read_file_multi_delimiters\<close> returned (the csv module's reading is not modelled);
  \<open>get_header\<close> pops its first row. The inner loop \<open>map_columns\<close> is
  \<open>for index, value in enumerate(row)\<close>, reading \<open>self.header[index]\<close>; the outer loop
  \<open>populate_rows\<close> skips a row shorter than \<open>minimum_num_columns\<close>. The result is the pair
  of \<open>self.header\<close> and \<open>self.results\<close> the constructor leaves in the object.
\<close>

definition get_header :: "string list list \<Rightarrow> error + (string list \<times> string list list)" where
  "get_header file_contents =
     (case file_contents of [] \<Rightarrow> Inl IndexError | h # rows \<Rightarrow> Inr (h, rows))"

fun map_columns :: "parser \<Rightarrow> string list \<Rightarrow> nat \<Rightarrow> string list \<Rightarrow> amr_result \<Rightarrow> error + amr_result" where
  "map_columns p hdr index [] ab_result = Inr ab_result"
| "map_columns p hdr index (v # vs) ab_result =
     (case list_get hdr index of
        Inl e \<Rightarrow> Inl e
      | Inr column \<Rightarrow>
          (case dict_get (column_to_variable_mapping p) column of
             Some variable_name \<Rightarrow> map_columns p hdr (Suc index) vs (setattr ab_result variable_name v)
           | None \<Rightarrow> map_columns p hdr (Suc index) vs ab_result))"

fun populate_rows :: "parser \<Rightarrow> string list \<Rightarrow> string list list \<Rightarrow> error + amr_result list" where
  "populate_rows p hdr [] = Inr []"
| "populate_rows p hdr (row # rows) =
     (if length row < minimum_num_columns p then populate_rows p hdr rows
      else
        (case map_columns p hdr 0 row (new_result (result_class p) (default_header p)) of
           Inl e \<Rightarrow> Inl e
         | Inr ab_result \<Rightarrow>
             (case populate_rows p hdr rows of
                Inl e \<Rightarrow> Inl e
              | Inr abricate_results \<Rightarrow> Inr (ab_result # abricate_results))))"

definition populate_results :: "parser \<Rightarrow> string list list \<Rightarrow> error + (string list \<times> amr_result list)" where
  "populate_results p file_contents =
     (case get_header file_contents of
        Inl e \<Rightarrow> Inl e
      | Inr (hdr, rows) \<Rightarrow>
          (case populate_rows p hdr rows of
             Inl e \<Rightarrow> Inl e
           | Inr results \<Rightarrow> Inr (hdr, results)))"

text \<open>
  The parser's own \<open>__str__\<close>, as Abricate097 has it:
  \<open>"\n".join([str(r) for r in self.results])\<close>, here of the parser constructed on
  \<open>file_contents\<close>.
\<close>

definition parser_str :: "parser \<Rightarrow> string list list \<Rightarrow> error + string" where
  "parser_str p file_contents =
     (case populate_results p file_contents of
        Inl e \<Rightarrow> Inl e
      | Inr (hdr, results) \<Rightarrow>
          (case str_results results of Inl e \<Rightarrow> Inl e | Inr lines \<Rightarrow> Inr (join [NL] lines)))"

section \<open>IdentifyResults.get_results\<close>

text \<open>
  Each parser is constructed (which parses the file) and then asked \<open>is_valid()\<close>; for the
  last three the test is \<open>is_valid() or self.results_type == '...'\<close>. \<open>results_type\<close> is
  \<open>None\<close> or a string.
\<close>

definition get_results :: "string list list \<Rightarrow> string option \<Rightarrow> error + amr_result list" where
  "get_results input_file results_type =
     (case populate_results Abricate098 input_file of
        Inl e \<Rightarrow> Inl e
      | Inr (h, a_results) \<Rightarrow>
     (case is_valid h (default_header Abricate098) of
        Inl e \<Rightarrow> Inl e
      | Inr a_valid \<Rightarrow>
     if a_valid then Inr a_results else
     (case populate_results Abricate097 input_file of
        Inl e \<Rightarrow> Inl e
      | Inr (h7, a7_results) \<Rightarrow>
     (case is_valid h7 (default_header Abricate097) of
        Inl e \<Rightarrow> Inl e
      | Inr a7_valid \<Rightarrow>
     if a7_valid \<or> results_type = Some ''abricate'' then Inr a7_results else
     (case populate_results Staramr input_file of
        Inl e \<Rightarrow> Inl e
      | Inr (hs, s_results) \<Rightarrow>
     (case is_valid hs (default_header Staramr) of
        Inl e \<Rightarrow> Inl e
      | Inr s_valid \<Rightarrow>
     if s_valid \<or> results_type = Some ''staramr'' then Inr s_results else
     (case populate_results Rgi input_file of
        Inl e \<Rightarrow> Inl e
      | Inr (hr, r_results) \<Rightarrow>
     (case is_valid hr (default_header Rgi) of
        Inl e \<Rightarrow> Inl e
      | Inr r_valid \<Rightarrow>
     if r_valid \<or> results_type = Some ''rgi'' then Inr r_results else Inr []))))))))"

section \<open>The species knowledge base\<close>

text \<open>
  The data classes SummaryResult (a gene name and a count; the name is \<open>r.gene\<close> of a
  result, so it may be \<open>None\<close>) and SpeciesGenes (one row of the knowledge base).
\<close>

record SummaryResult =
  gene_name :: "string option"
  occurances :: int

record SpeciesGenes =
  species :: string
  gene :: string
  occurances :: int
  database_name :: string

text \<open>
  \<open>SpeciesToGenes.populate\<close> over the data rows that its \<open>read_file_multi_delimiters\<close>
  returned (the header row already skipped). The arguments of the constructor call are
  evaluated left to right: \<open>int(row[2])\<close> before \<open>row[4]\<close>.
\<close>

definition SpeciesToGenes_minimum_num_columns :: nat where
  "SpeciesToGenes_minimum_num_columns = 3"

definition species_genes_of_row :: "string list \<Rightarrow> error + SpeciesGenes" where
  "species_genes_of_row row =
     (case list_get row 0 of Inl e \<Rightarrow> Inl e | Inr s \<Rightarrow>
     (case list_get row 1 of Inl e \<Rightarrow> Inl e | Inr g \<Rightarrow>
     (case list_get row 2 of Inl e \<Rightarrow> Inl e | Inr c \<Rightarrow>
     (case py_int c of Inl e \<Rightarrow> Inl e | Inr n \<Rightarrow>
     (case list_get row 4 of Inl e \<Rightarrow> Inl e | Inr d \<Rightarrow>
        Inr \<lparr>species = s, gene = g, occurances = n, database_name = d\<rparr>)))))"

fun populate :: "string list list \<Rightarrow> error + SpeciesGenes list" where
  "populate [] = Inr []"
| "populate (row # file_contents) =
     (if length row < SpeciesToGenes_minimum_num_columns then populate file_contents
      else
        (case species_genes_of_row row of
           Inl e \<Rightarrow> Inl e
         | Inr sg \<Rightarrow>
             (case populate file_contents of
                Inl e \<Rightarrow> Inl e
              | Inr results \<Rightarrow> Inr (sg # results))))"

definition SpeciesToGenes_filter_by_species :: "SpeciesGenes list \<Rightarrow> string \<Rightarrow> string \<Rightarrow> SpeciesGenes list" where
  "SpeciesToGenes_filter_by_species species_to_genes query dbname =
     filter (\<lambda>s. species s = query \<and> database_name s = dbname) species_to_genes"

section \<open>FilterResults.filter_by_species\<close>

text \<open>
  The dict comprehension
  \<open>{ g.gene: g.occurances for g in species_genes if g.occurances >= self.minimum_occurances }\<close>:
  the entries are visited in order and each one that passes the test is assigned.
\<close>

definition species_genes_to_occurances :: "SpeciesGenes list \<Rightarrow> int \<Rightarrow> (string, int) dict" where
  "species_genes_to_occurances species_genes minimum_occurances =
     fold (\<lambda>g d. if occurances g \<ge> minimum_occurances then dict_set d (gene g) (occurances g) else d)
       species_genes []"

text \<open>
  \<open>r.gene in species_genes_to_occurances\<close>: \<open>r.gene\<close> is a string or \<open>None\<close>, and the keys
  are strings, so \<open>None\<close> is never a member.
\<close>

definition gene_in :: "amr_result \<Rightarrow> (string, int) dict \<Rightarrow> bool" where
  "gene_in r d = (case getattr r ''gene'' of None \<Rightarrow> False | Some g \<Rightarrow> dict_contains d g)"

text \<open>
  The arguments are the object's fields \<open>results_filename\<close> and \<open>database_filename\<close> (as the
  rows read from the two files), \<open>minimum_occurances\<close>, \<open>results_type\<close> and \<open>database_name\<close>,
  then the species.
\<close>

definition FilterResults_filter_by_species ::
  "string list list \<Rightarrow> string list list \<Rightarrow> int \<Rightarrow> string option \<Rightarrow> string \<Rightarrow> string \<Rightarrow> error + amr_result list" where
  "FilterResults_filter_by_species results_file database_file minimum_occurances results_type dbname sp =
     (case get_results results_file results_type of
        Inl e \<Rightarrow> Inl e
      | Inr all_results \<Rightarrow>
     (case populate database_file of
        Inl e \<Rightarrow> Inl e
      | Inr species_to_genes \<Rightarrow>
          Inr (filter
                 (\<lambda>r. gene_in r
                    (species_genes_to_occurances
                       (SpeciesToGenes_filter_by_species species_to_genes sp dbname) minimum_occurances))
                 all_results)))"

section \<open>Summary.aggregate_results\<close>

text \<open>
  The loop over \<open>self.results\<close>: a gene already in the dict has its count incremented in
  place, a new one is inserted with count 1. The key is \<open>r.gene\<close>, which may be \<open>None\<close>.
\<close>

definition aggregate_step ::
  "(string option, SummaryResult) dict \<Rightarrow> amr_result \<Rightarrow> (string option, SummaryResult) dict" where
  "aggregate_step genename_to_summary r =
     (case dict_get genename_to_summary (getattr r ''gene'') of
        Some s \<Rightarrow>
          dict_set genename_to_summary (getattr r ''gene'')
            (s\<lparr>SummaryResult.occurances := SummaryResult.occurances s + 1\<rparr>)
      | None \<Rightarrow>
          dict_set genename_to_summary (getattr r ''gene'')
            \<lparr>gene_name = getattr r ''gene'', SummaryResult.occurances = 1\<rparr>)"

definition aggregate_results :: "amr_result list \<Rightarrow> (string option, SummaryResult) dict" where
  "aggregate_results results = foldl aggregate_step [] results"

section \<open>Scagaire.run: writing the results of one species\<close>

text \<open>
  The end of the loop body of \<open>run\<close>, after \<open>filter_by_species\<close> and \<open>output_summary\<close>: the
  text appended to the output file (\<open>to_file\<close>) or printed. \<open>num_species\<close> is
  \<open>len(self.species)\<close>. \<open>str(r)\<close> raises when an attribute it joins is \<open>None\<close>;
  \<open>results[0].header\<close> is read only when the list is not empty.
\<close>

definition separator :: "string \<Rightarrow> string" where
  "separator spec = ''Results for species:'' @ [TAB] @ spec @ [NL] @ ''======================='' @ [NL]"

definition run_output :: "bool \<Rightarrow> nat \<Rightarrow> string \<Rightarrow> amr_result list \<Rightarrow> error + string" where
  "run_output to_file num_species spec results =
     (case str_results results of
        Inl e \<Rightarrow> Inl e
      | Inr lines \<Rightarrow>
          (let output_content = join [NL] lines;
               header_line = (case results of [] \<Rightarrow> ''No results'' | r # rs \<Rightarrow> join [TAB] (header r))
           in if to_file then
                Inr ((if num_species > 1 then separator spec else []) @
                     header_line @ [NL] @ output_content @ [NL])
              else Inr (separator spec @ header_line @ [NL] @ output_content @ [NL])))"

section \<open>The auto-detector, as the specification words it\<close>

text \<open>
  The dialects are tried in the given order; each is parsed and validated, and the first
  one whose header validates, or which the hint names, gives the result; no match gives
  the empty list. Every dialect comes with the hint names that select it.
\<close>

definition hint_names :: "string option \<Rightarrow> string list \<Rightarrow> bool" where
  "hint_names results_type names = (case results_type of None \<Rightarrow> False | Some t \<Rightarrow> t \<in> set names)"

fun first_matching_dialect ::
  "(parser \<times> string list) list \<Rightarrow> string list list \<Rightarrow> string option \<Rightarrow> error + amr_result list" where
  "first_matching_dialect [] input_file results_type = Inr []"
| "first_matching_dialect ((p, names) # ps) input_file results_type =
     (case populate_results p input_file of
        Inl e \<Rightarrow> Inl e
      | Inr (h, results) \<Rightarrow>
          (case is_valid h (default_header p) of
             Inl e \<Rightarrow> Inl e
           | Inr valid \<Rightarrow>
               if valid \<or> hint_names results_type names then Inr results
               else first_matching_dialect ps input_file results_type))"

section \<open>Example inputs\<close>

text \<open>
  A results file in the Abricate 0.9.7 layout with one row for each of three genes, the
  object the legacy parser builds from such a row, and a row of the knowledge-base file.
\<close>

definition example_row :: "string \<Rightarrow> string list" where
  "example_row g =
     [''assembly.fa'', ''contig1'', ''10'', ''900'', g, ''1-891/891'', ''==============='',
      ''0/0'', ''100.00'', ''99.80'', ''db1'', ''NG_000001'', ''beta-lactamase'']"

definition example_result :: "string \<Rightarrow> amr_result" where
  "example_result g =
     \<lparr>cls = AbricateResult097,
      attrs = zip (init_attrs AbricateResult097) (map Some (example_row g)),
      header = default_header Abricate097\<rparr>"

definition example_results_file :: "string list list" where
  "example_results_file =
     [default_header Abricate097, example_row ''geneA'', example_row ''geneB'', example_row ''geneC'']"

definition example_database_row :: "string \<Rightarrow> string \<Rightarrow> string list" where
  "example_database_row g n = [''SpeciesX'', g, n, ''abricate'', ''db1'', ''auto'', ''20191008'']"


section \<open>Properties of the dict model\<close>

lemma map_fst_dict_update:
  "map fst (map (\<lambda>(k', v'). if k' = k then (k', v) else (k', v')) d) = map fst d"
  by (induction d) (simp_all add: case_prod_beta)

lemma dict_contains_dict_set:
  "dict_contains (dict_set d k v) k' \<longleftrightarrow> k' = k \<or> dict_contains d k'"
proof (cases "dict_contains d k")
  case True
  then show ?thesis
    unfolding dict_set_def dict_contains_def by (auto simp only: if_True map_fst_dict_update)
next
  case False
  then show ?thesis
    unfolding dict_set_def dict_contains_def by auto
qed

lemma map_of_dict_update:
  "map_of (map (\<lambda>(k', v'). if k' = k then (k', v) else (k', v')) d) x =
     (if x = k \<and> map_of d k \<noteq> None then Some v else map_of d x)"
proof (induction d)
  case Nil
  then show ?case by simp
next
  case (Cons a d)
  obtain a1 a2 where a: "a = (a1, a2)" by (cases a)
  show ?case using Cons.IH by (auto simp: a)
qed

lemma map_of_dict_append:
  "k \<notin> set (map fst d) \<Longrightarrow> map_of (d @ [(k, v)]) x = (if x = k then Some v else map_of d x)"
  by (induction d) auto

lemma dict_get_dict_set:
  "dict_get (dict_set d k v) k' = (if k' = k then Some v else dict_get d k')"
proof (cases "dict_contains d k")
  case True
  then show ?thesis
    unfolding dict_get_def dict_set_def dict_contains_def
    by (simp only: if_True map_of_dict_update) (simp add: map_of_eq_None_iff)
next
  case False
  then show ?thesis
    by (simp add: dict_get_def dict_set_def dict_contains_def map_of_dict_append del: map_of_append)
qed

lemma dict_contains_iff_get: "dict_contains d k \<longleftrightarrow> dict_get d k \<noteq> None"
  by (simp add: dict_contains_def dict_get_def map_of_eq_None_iff)

section \<open>Header validation\<close>

text \<open>
  What \<open>is_valid\<close> computes: it answers True exactly when the actual header is a prefix
  of the expected one, raises IndexError exactly when the actual header continues past
  the end of the expected one after matching all of it, and answers False otherwise. On
  headers of equal length it is list equality.
\<close>

lemma is_valid_loop_True_iff:
  "is_valid_loop i hs dh = Inr True \<longleftrightarrow> (\<exists>rest. drop i dh = hs @ rest)"
proof (induction hs arbitrary: i)
  case Nil
  then show ?case by simp
next
  case (Cons h hs)
  show ?case
  proof (cases "i < length dh")
    case True
    then have d: "drop i dh = dh ! i # drop (Suc i) dh"
      by (simp add: Cons_nth_drop_Suc)
    show ?thesis using True Cons.IH[of "Suc i"] by (auto simp: list_get_def d)
  next
    case False
    then show ?thesis by (simp add: list_get_def)
  qed
qed

lemma is_valid_True_iff: "is_valid h d = Inr True \<longleftrightarrow> (\<exists>rest. d = h @ rest)"
  by (simp add: is_valid_def is_valid_loop_True_iff)

lemma is_valid_loop_error_iff:
  "is_valid_loop i hs dh = Inl e \<longleftrightarrow>
     e = IndexError \<and> (\<exists>rest. rest \<noteq> [] \<and> hs = drop i dh @ rest)"
proof (induction hs arbitrary: i)
  case Nil
  then show ?case by simp
next
  case (Cons h hs)
  show ?case
  proof (cases "i < length dh")
    case True
    then have d: "drop i dh = dh ! i # drop (Suc i) dh"
      by (simp add: Cons_nth_drop_Suc)
    show ?thesis using True Cons.IH[of "Suc i"] by (auto simp: list_get_def d)
  next
    case False
    then show ?thesis by (auto simp: list_get_def)
  qed
qed

lemma is_valid_error_iff:
  "is_valid h d = Inl e \<longleftrightarrow> e = IndexError \<and> (\<exists>rest. rest \<noteq> [] \<and> h = d @ rest)"
  by (simp add: is_valid_def is_valid_loop_error_iff)

lemma is_valid_same_length:
  assumes "length h = length d"
  shows "is_valid h d = Inr (h = d)"
proof (cases "is_valid h d")
  case (Inl e)
  then show ?thesis using assms by (auto simp: is_valid_error_iff)
next
  case (Inr b)
  then show ?thesis using assms is_valid_True_iff[of h d] by (cases b) auto
qed

text \<open>
  C2. The claim: \<open>is_valid\<close> returns true if and only if the actual header equals the
  expected header position for position, with the same column count. The code accepts
  a header that stops early: the two-column header \<open>#FILE, SEQUENCE\<close> is valid for the
  thirteen-column Abricate 0.9.7 schema.
\<close>

theorem is_valid_accepts_shorter_header:
  "is_valid [''#FILE'', ''SEQUENCE''] (default_header Abricate097) = Inr True"
  by code_simp

text \<open>
  C6. The claim: for every actual header, also one with extra trailing columns,
  \<open>is_valid\<close> returns a boolean and never reads past the end of the expected header. On
  the Abricate 0.9.7 header followed by one more column the code reads
  \<open>default_header[13]\<close> and raises IndexError.
\<close>

theorem is_valid_extra_column_raises:
  "is_valid (default_header Abricate097 @ [''EXTRA'']) (default_header Abricate097) = Inl IndexError"
  by code_simp

section \<open>Loading the knowledge base\<close>

text \<open>
  C3. A data row with fewer than \<open>minimum_num_columns\<close> (3) fields is skipped by
  \<open>populate\<close>: whatever rows come before and after it, the load gives the result (the
  entries, or the exception of another row) that it gives without the short row, so the
  row adds no entry and raises nothing, however few fields it has.
\<close>

theorem populate_skips_short_row:
  "length r < SpeciesToGenes_minimum_num_columns \<Longrightarrow> populate (pre @ r # post) = populate (pre @ post)"
  by (induction pre) (auto split: sum.splits)

theorem populate_skips_short_row_witness:
  "length ([''SpeciesX'', ''geneB''] :: string list) < SpeciesToGenes_minimum_num_columns \<and>
   populate ([example_database_row ''geneA'' ''5''] @ [''SpeciesX'', ''geneB''] # [[], example_database_row ''geneC'' ''7'']) =
     Inr [\<lparr>species = ''SpeciesX'', gene = ''geneA'', occurances = 5, database_name = ''db1''\<rparr>,
          \<lparr>species = ''SpeciesX'', gene = ''geneC'', occurances = 7, database_name = ''db1''\<rparr>]"
proof -
  have short: "length ([''SpeciesX'', ''geneB''] :: string list) < SpeciesToGenes_minimum_num_columns"
    by (simp add: SpeciesToGenes_minimum_num_columns_def)
  have rest: "populate ([example_database_row ''geneA'' ''5''] @ [[], example_database_row ''geneC'' ''7'']) =
     Inr [\<lparr>species = ''SpeciesX'', gene = ''geneA'', occurances = 5, database_name = ''db1''\<rparr>,
          \<lparr>species = ''SpeciesX'', gene = ''geneC'', occurances = 7, database_name = ''db1''\<rparr>]"
    by code_simp
  show ?thesis
    using short rest populate_skips_short_row [OF short, of "[example_database_row ''geneA'' ''5'']"
        "[[], example_database_row ''geneC'' ''7'']"]
    by simp
qed

section \<open>Filtering by species\<close>

lemma fold_dict_get:
  "dict_get (fold (\<lambda>g d. if occurances g \<ge> m then dict_set d (gene g) (occurances g) else d) sg d0) k =
     (case filter (\<lambda>e. gene e = k \<and> m \<le> occurances e) sg of
        [] \<Rightarrow> dict_get d0 k
      | e # es \<Rightarrow> Some (occurances (last (e # es))))"
proof (induction sg arbitrary: d0)
  case Nil
  then show ?case by simp
next
  case (Cons a sg)
  show ?case
    by (simp add: Cons.IH dict_get_dict_set split: list.splits)
qed

lemma dict_contains_species_genes_to_occurances:
  "dict_contains (species_genes_to_occurances sg m) k \<longleftrightarrow>
     (\<exists>e \<in> set sg. gene e = k \<and> m \<le> occurances e)"
proof -
  have "filter (\<lambda>e. gene e = k \<and> m \<le> occurances e) sg = [] \<longleftrightarrow>
        \<not> (\<exists>e \<in> set sg. gene e = k \<and> m \<le> occurances e)"
    by (auto simp: filter_empty_conv)
  then show ?thesis
    unfolding species_genes_to_occurances_def dict_contains_iff_get fold_dict_get
    by (auto simp: dict_get_def split: list.splits)
qed

text \<open>
  C1. When the results file parses to \<open>all_results\<close> and the knowledge-base file loads to
  \<open>species_to_genes\<close>, \<open>filter_by_species\<close> returns exactly the records of \<open>all_results\<close>
  whose gene is the gene of some entry for that species and database with an occurrence
  count of at least the threshold, in input order (it is a filter of the list: nothing is
  duplicated or moved). An entry below the threshold does not admit its gene.
\<close>

theorem filter_by_species_exact:
  assumes "get_results results_file results_type = Inr all_results"
    and "populate database_file = Inr species_to_genes"
  shows "FilterResults_filter_by_species results_file database_file minimum_occurances results_type dbname sp =
     Inr (filter
            (\<lambda>r. \<exists>e \<in> set species_to_genes.
                   species e = sp \<and> database_name e = dbname \<and>
                   minimum_occurances \<le> occurances e \<and> getattr r ''gene'' = Some (gene e))
            all_results)"
proof -
  have "gene_in r (species_genes_to_occurances
                     (SpeciesToGenes_filter_by_species species_to_genes sp dbname) minimum_occurances) \<longleftrightarrow>
        (\<exists>e \<in> set species_to_genes.
            species e = sp \<and> database_name e = dbname \<and>
            minimum_occurances \<le> occurances e \<and> getattr r ''gene'' = Some (gene e))" for r
    by (auto simp: gene_in_def dict_contains_species_genes_to_occurances
        SpeciesToGenes_filter_by_species_def split: option.splits)
  then show ?thesis
    using assms by (simp add: FilterResults_filter_by_species_def)
qed

theorem filter_by_species_exact_witness:
  "FilterResults_filter_by_species example_results_file
     [example_database_row ''geneA'' ''5'', example_database_row ''geneB'' ''1''] 3 None ''db1'' ''SpeciesX'' =
   Inr [example_result ''geneA'']"
proof -
  have parsed: "get_results example_results_file None =
      Inr [example_result ''geneA'', example_result ''geneB'', example_result ''geneC'']"
    by code_simp
  have loaded: "populate [example_database_row ''geneA'' ''5'', example_database_row ''geneB'' ''1''] =
      Inr [\<lparr>species = ''SpeciesX'', gene = ''geneA'', occurances = 5, database_name = ''db1''\<rparr>,
           \<lparr>species = ''SpeciesX'', gene = ''geneB'', occurances = 1, database_name = ''db1''\<rparr>]"
    by code_simp
  have genes: "getattr (example_result ''geneA'') ''gene'' = Some ''geneA''"
    "getattr (example_result ''geneB'') ''gene'' = Some ''geneB''"
    "getattr (example_result ''geneC'') ''gene'' = Some ''geneC''"
    by code_simp+
  show ?thesis
    using filter_by_species_exact [OF parsed loaded, of 3 "''db1''" "''SpeciesX''"]
    by (simp add: genes)
qed

text \<open>
  C10. The claim: with several entries for one species, gene and database, the threshold
  is applied to the count of the last entry only. The dict comprehension skips an entry
  below the threshold, so an earlier entry that passes keeps the gene in the dict: the
  dict holds, for each gene, the count of the last entry that reaches the threshold (never
  a sum of counts), and holds the gene exactly when some entry reaches the threshold.
\<close>

theorem species_genes_to_occurances_last_qualifying:
  "dict_get (species_genes_to_occurances species_genes minimum_occurances) g =
     (case filter (\<lambda>e. gene e = g \<and> minimum_occurances \<le> occurances e) species_genes of
        [] \<Rightarrow> None
      | e # es \<Rightarrow> Some (occurances (last (e # es))))
   \<and> dict_contains (species_genes_to_occurances species_genes minimum_occurances) g =
       (\<exists>e \<in> set species_genes. gene e = g \<and> minimum_occurances \<le> occurances e)"
proof
  show "dict_get (species_genes_to_occurances species_genes minimum_occurances) g =
     (case filter (\<lambda>e. gene e = g \<and> minimum_occurances \<le> occurances e) species_genes of
        [] \<Rightarrow> None
      | e # es \<Rightarrow> Some (occurances (last (e # es))))"
    unfolding species_genes_to_occurances_def fold_dict_get
    by (simp add: dict_get_def split: list.splits)
  show "dict_contains (species_genes_to_occurances species_genes minimum_occurances) g =
       (\<exists>e \<in> set species_genes. gene e = g \<and> minimum_occurances \<le> occurances e)"
    by (rule dict_contains_species_genes_to_occurances)
qed

theorem last_entry_below_threshold_counterexample:
  "populate [example_database_row ''geneA'' ''5'', example_database_row ''geneA'' ''1''] =
     Inr [\<lparr>species = ''SpeciesX'', gene = ''geneA'', occurances = 5, database_name = ''db1''\<rparr>,
          \<lparr>species = ''SpeciesX'', gene = ''geneA'', occurances = 1, database_name = ''db1''\<rparr>]
   \<and> FilterResults_filter_by_species example_results_file
        [example_database_row ''geneA'' ''5'', example_database_row ''geneA'' ''1''] 3 None ''db1'' ''SpeciesX'' =
      Inr [example_result ''geneA'']"
  by code_simp

section \<open>Format detection\<close>

text \<open>
  C5. The claim: a file whose header matches no schema, with no hint, gives the empty
  list and no error. Every parser parses the rows before its header is validated, and a
  row with more fields than the header makes \<open>self.header[index]\<close> raise: with the header
  \<open>x, y\<close> and one thirteen-field row the detector raises IndexError.
\<close>

theorem get_results_long_row_raises:
  "is_valid [''x'', ''y''] (default_header Abricate098) = Inr False
   \<and> is_valid [''x'', ''y''] (default_header Abricate097) = Inr False
   \<and> is_valid [''x'', ''y''] (default_header Staramr) = Inr False
   \<and> is_valid [''x'', ''y''] (default_header Rgi) = Inr False
   \<and> get_results [[''x'', ''y''], example_row ''geneA''] None = Inl IndexError"
  by code_simp

text \<open>
  When the four parsers parse the file without an exception and none of the four
  validations succeeds, no hint gives the empty list.
\<close>

lemma get_results_no_match:
  assumes "populate_results Abricate098 input_file = Inr (h, a_results)"
    and "populate_results Abricate097 input_file = Inr (h, a7_results)"
    and "populate_results Staramr input_file = Inr (h, s_results)"
    and "populate_results Rgi input_file = Inr (h, r_results)"
    and "is_valid h (default_header Abricate098) = Inr False"
    and "is_valid h (default_header Abricate097) = Inr False"
    and "is_valid h (default_header Staramr) = Inr False"
    and "is_valid h (default_header Rgi) = Inr False"
  shows "get_results input_file None = Inr []"
  using assms by (simp add: get_results_def)

text \<open>
  C4. The claim: the detector returns the parse of the first dialect, in the order
  Abricate 0.9.8, Abricate 0.9.7, StarAMR, RGI, whose header validates or which the hint
  names; each of the four can be selected by hint and the hinted dialect wins over the
  priority order. In the code the first part holds with these hint names: none for
  Abricate 0.9.8 (it is selected by its header only), \<open>abricate\<close> for Abricate 0.9.7,
  \<open>staramr\<close> and \<open>rgi\<close>. A hint does not overrule an earlier dialect whose header
  validates: a valid Abricate 0.9.7 file with the hint \<open>rgi\<close> is returned as parsed by the
  Abricate 0.9.7 parser, not by the RGI parser (which finds no row long enough).
\<close>

theorem get_results_first_match:
  "get_results input_file results_type =
     first_matching_dialect
       [(Abricate098, []), (Abricate097, [''abricate'']), (Staramr, [''staramr'']), (Rgi, [''rgi''])]
       input_file results_type"
  by (cases results_type)
     (simp_all add: get_results_def hint_names_def split: sum.splits prod.splits)

theorem hinted_dialect_counterexample:
  "get_results example_results_file (Some ''rgi'') =
     Inr [example_result ''geneA'', example_result ''geneB'', example_result ''geneC'']
   \<and> populate_results Rgi example_results_file = Inr (default_header Abricate097, [])"
  by code_simp

section \<open>Writing the results\<close>

text \<open>
  C9. The claim: a species with no retained record still gets the dialect's header line.
  The code writes the line \<open>No results\<close> in that case, then the empty body; the separator
  comes first when several species are processed or the text is printed.
\<close>

theorem run_output_no_results:
  "run_output to_file num_species spec [] =
     Inr ((if to_file \<and> num_species \<le> 1 then [] else separator spec) @ ''No results'' @ [NL] @ [NL])"
  by (simp add: run_output_def)

theorem run_output_no_results_counterexample:
  "FilterResults_filter_by_species example_results_file [example_database_row ''geneD'' ''5''] 3 None ''db1'' ''SpeciesX'' = Inr []
   \<and> run_output True 1 ''SpeciesX'' [] = Inr (''No results'' @ [NL] @ [NL])
   \<and> run_output True 1 ''SpeciesX'' [] \<noteq> Inr (join [TAB] (default_header Abricate097) @ [NL] @ [NL])"
  by code_simp

section \<open>The summary\<close>

lemma first_occurrence_snoc:
  "rev (remdups (rev (xs @ [x]))) =
     (if x \<in> set xs then rev (remdups (rev xs)) else rev (remdups (rev xs)) @ [x])"
  by simp

lemma map_of_keyed:
  "map_of (map (\<lambda>k. (k, f k)) ks) x = (if x \<in> set ks then Some (f x) else None)"
  by (induction ks) auto

lemma aggregate_results_snoc:
  "aggregate_results (rs @ [r]) = aggregate_step (aggregate_results rs) r"
  by (simp add: aggregate_results_def)

text \<open>
  C7. \<open>aggregate_results\<close> returns one entry for each gene name of the record list, in
  the order of the genes' first occurrences, and the entry of a gene holds the gene and
  the number of records bearing it. The right-hand side depends on the record list
  only.
\<close>

theorem aggregate_results_counts:
  "aggregate_results results =
     map (\<lambda>g. (g, \<lparr>gene_name = g,
                    SummaryResult.occurances =
                      int (count_list (map (\<lambda>r. getattr r ''gene'') results) g)\<rparr>))
       (rev (remdups (rev (map (\<lambda>r. getattr r ''gene'') results))))"
proof (induction results rule: rev_induct)
  case Nil
  then show ?case by (simp add: aggregate_results_def)
next
  case (snoc r rs)
  let ?genes = "map (\<lambda>r. getattr r ''gene'') rs"
  let ?keys = "rev (remdups (rev ?genes))"
  let ?x = "getattr r ''gene''"
  have keys: "set ?keys = set ?genes" by simp
  show ?case
  proof (cases "?x \<in> set ?genes")
    case True
    have get: "dict_get (aggregate_results rs) ?x =
        Some \<lparr>gene_name = ?x, SummaryResult.occurances = int (count_list ?genes ?x)\<rparr>"
      unfolding snoc.IH dict_get_def map_of_keyed using True by simp
    have has: "dict_contains (aggregate_results rs) ?x"
      using get by (simp add: dict_contains_iff_get)
    show ?thesis
      unfolding aggregate_results_snoc aggregate_step_def get
      using True has
      by (simp add: dict_set_def) (simp add: snoc.IH)
  next
    case False
    have get: "dict_get (aggregate_results rs) ?x = None"
      unfolding snoc.IH dict_get_def map_of_keyed using False by simp
    have has: "\<not> dict_contains (aggregate_results rs) ?x"
      using get by (simp add: dict_contains_iff_get)
    show ?thesis
      unfolding aggregate_results_snoc aggregate_step_def get
      using False has
      by (simp add: dict_set_def) (auto simp: snoc.IH)
  qed
qed

lemma aggregate_results_example:
  "aggregate_results [example_result ''geneA'', example_result ''geneA'', example_result ''geneB''] =
     [(Some ''geneA'', \<lparr>gene_name = Some ''geneA'', SummaryResult.occurances = 2\<rparr>),
      (Some ''geneB'', \<lparr>gene_name = Some ''geneB'', SummaryResult.occurances = 1\<rparr>)]"
  by code_simp

section \<open>Parsing a row and rendering it again\<close>

lemma populate_rows_round_trip:
  assumes row: "\<And>row. length row = n \<Longrightarrow>
      \<exists>r. map_columns p hdr 0 row (new_result (result_class p) (default_header p)) = Inr r \<and>
          str_result r = Inr (join [TAB] row)"
    and n: "minimum_num_columns p \<le> n"
    and rows: "list_all (\<lambda>row. length row = n) rows"
  shows "\<exists>results. populate_rows p hdr rows = Inr results \<and>
            map str_result results = map (\<lambda>row. Inr (join [TAB] row)) rows"
  using rows
proof (induction rows)
  case Nil
  then show ?case by simp
next
  case (Cons a rows)
  then obtain results where r: "populate_rows p hdr rows = Inr results"
    "map str_result results = map (\<lambda>row. Inr (join [TAB] row)) rows" by auto
  from Cons.prems have "length a = n" by simp
  with row obtain ra where ra: "map_columns p hdr 0 a (new_result (result_class p) (default_header p)) = Inr ra"
     "str_result ra = Inr (join [TAB] a)" by blast
  show ?case using r ra n \<open>length a = n\<close> by simp
qed

lemma list13:
  assumes "length (row :: 'a list) = 13"
  obtains a b c d e f g h i j k l m where "row = [a, b, c, d, e, f, g, h, i, j, k, l, m]"
  using assms by (auto simp: eval_nat_numeral length_Suc_conv)

lemma row_Abricate097:
  assumes "length row = 13"
  shows "\<exists>r. map_columns Abricate097 (default_header Abricate097) 0 row
            (new_result (result_class Abricate097) (default_header Abricate097)) = Inr r \<and>
          str_result r = Inr (join [TAB] row)"
proof -
  from assms obtain a b c d e f g h i j k l m where row: "row = [a, b, c, d, e, f, g, h, i, j, k, l, m]"
    by (rule list13)
  show ?thesis
    unfolding row
    by (simp add: Abricate097_def list_get_def dict_get_def setattr_def new_result_def
        dict_set_def dict_contains_def str_result_def getattr_def py_join_def)
qed

lemma list15:
  assumes "length (row :: 'a list) = 15"
  obtains x1 x2 x3 x4 x5 x6 x7 x8 x9 x10 x11 x12 x13 x14 x15 where "row = [x1, x2, x3, x4, x5, x6, x7, x8, x9, x10, x11, x12, x13, x14, x15]"
  using assms by (auto simp: eval_nat_numeral length_Suc_conv)

lemma row_Abricate098:
  assumes "length row = 15"
  shows "\<exists>r. map_columns Abricate098 (default_header Abricate098) 0 row
            (new_result (result_class Abricate098) (default_header Abricate098)) = Inr r \<and>
          str_result r = Inr (join [TAB] row)"
proof -
  from assms obtain x1 x2 x3 x4 x5 x6 x7 x8 x9 x10 x11 x12 x13 x14 x15 where row: "row = [x1, x2, x3, x4, x5, x6, x7, x8, x9, x10, x11, x12, x13, x14, x15]"
    by (rule list15)
  show ?thesis
    unfolding row
    by (simp add: Abricate098_def list_get_def dict_get_def setattr_def new_result_def
        dict_set_def dict_contains_def str_result_def getattr_def py_join_def)
qed

lemma list10:
  assumes "length (row :: 'a list) = 10"
  obtains x1 x2 x3 x4 x5 x6 x7 x8 x9 x10 where "row = [x1, x2, x3, x4, x5, x6, x7, x8, x9, x10]"
  using assms by (auto simp: eval_nat_numeral length_Suc_conv)

lemma row_Staramr:
  assumes "length row = 10"
  shows "\<exists>r. map_columns Staramr (default_header Staramr) 0 row
            (new_result (result_class Staramr) (default_header Staramr)) = Inr r \<and>
          str_result r = Inr (join [TAB] row)"
proof -
  from assms obtain x1 x2 x3 x4 x5 x6 x7 x8 x9 x10 where row: "row = [x1, x2, x3, x4, x5, x6, x7, x8, x9, x10]"
    by (rule list10)
  show ?thesis
    unfolding row
    by (simp add: Staramr_def list_get_def dict_get_def setattr_def new_result_def
        dict_set_def dict_contains_def str_result_def getattr_def py_join_def)
qed

text \<open>
  For Abricate 0.9.7 (the source's table) and for the modelled tables of Abricate 0.9.8
  and StarAMR: in a file whose header is the expected header and whose data rows all have
  the dialect's column count, the parser builds one object per row, and \<open>__str__\<close> of that
  object is the row's fields joined by tabs, in the dialect's column order.
\<close>

lemma dialect_round_trip:
  assumes "p \<in> {Abricate097, Abricate098, Staramr}"
    and "list_all (\<lambda>row. length row = length (default_header p)) rows"
  shows "\<exists>results. populate_results p (default_header p # rows) = Inr (default_header p, results) \<and>
            map str_result results = map (\<lambda>row. Inr (join [TAB] row)) rows"
proof -
  have len: "length (default_header Abricate097) = 13" "length (default_header Abricate098) = 15"
    "length (default_header Staramr) = 10"
    by (simp_all add: Abricate097_def Abricate098_def Staramr_def)
  have minimum: "minimum_num_columns Abricate097 \<le> 13" "minimum_num_columns Abricate098 \<le> 15"
    "minimum_num_columns Staramr \<le> 10"
    by (simp_all add: Abricate097_def Abricate098_def Staramr_def)
  have "\<exists>results. populate_rows p (default_header p) rows = Inr results \<and>
            map str_result results = map (\<lambda>row. Inr (join [TAB] row)) rows"
    using assms(1)
  proof (elim insertE emptyE)
    assume p: "p = Abricate097"
    show ?thesis
      using assms(2) unfolding p len
      by (intro populate_rows_round_trip [OF row_Abricate097 minimum(1)])
  next
    assume p: "p = Abricate098"
    show ?thesis
      using assms(2) unfolding p len
      by (intro populate_rows_round_trip [OF row_Abricate098 minimum(2)])
  next
    assume p: "p = Staramr"
    show ?thesis
      using assms(2) unfolding p len
      by (intro populate_rows_round_trip [OF row_Staramr minimum(3)])
  qed
  then show ?thesis
    by (auto simp: populate_results_def get_header_def)
qed

text \<open>The text itself, on the example file: the fields in column order, a tab between them.\<close>

lemma parser_str_example:
  "parser_str Abricate097 [default_header Abricate097, example_row ''geneA''] =
     Inr (''assembly.fa'' @ [TAB] @ ''contig1'' @ [TAB] @ ''10'' @ [TAB] @ ''900'' @ [TAB] @
          ''geneA'' @ [TAB] @ ''1-891/891'' @ [TAB] @ ''==============='' @ [TAB] @ ''0/0'' @
          [TAB] @ ''100.00'' @ [TAB] @ ''99.80'' @ [TAB] @ ''db1'' @ [TAB] @ ''NG_000001'' @
          [TAB] @ ''beta-lactamase'')"
  by code_simp

text \<open>
  RgiResult joins 25 attributes, all \<open>None\<close> in a new object, and every field of a row
  assigns at most one attribute. So whatever the table and the header of the parser, an
  object built from a row of at most 24 fields still has an attribute that is \<open>None\<close>,
  and its \<open>__str__\<close> raises TypeError.
\<close>

lemma getattr_setattr:
  "getattr (setattr r n v) m = (if m = n then Some v else getattr r m)"
  by (simp add: getattr_def setattr_def dict_get_dict_set)

lemma getattr_new_result: "getattr (new_result c hdr) n = None"
proof -
  have "map_of (map (\<lambda>n. (n, None)) names) n = Some v \<Longrightarrow> v = None" for names :: "string list" and v :: "string option"
    by (induction names) (auto split: if_splits)
  then show ?thesis
    by (auto simp: getattr_def new_result_def dict_get_def split: option.splits)
qed

lemma map_columns_assigned:
  assumes "map_columns p hdr i row r = Inr r'"
    and "finite {n. getattr r n \<noteq> None}"
  shows "cls r' = cls r \<and> finite {n. getattr r' n \<noteq> None} \<and>
         card {n. getattr r' n \<noteq> None} \<le> card {n. getattr r n \<noteq> None} + length row"
  using assms
proof (induction row arbitrary: i r)
  case Nil
  then show ?case by simp
next
  case (Cons v vs)
  from Cons.prems(1) obtain column where column: "list_get hdr i = Inr column"
    by (auto split: sum.splits)
  show ?case
  proof (cases "dict_get (column_to_variable_mapping p) column")
    case None
    with Cons.prems column have "map_columns p hdr (Suc i) vs r = Inr r'" by simp
    from Cons.IH [OF this Cons.prems(2)] show ?thesis by simp
  next
    case (Some variable_name)
    let ?r = "setattr r variable_name v"
    have set_eq: "{n. getattr ?r n \<noteq> None} = insert variable_name {n. getattr r n \<noteq> None}"
      by (auto simp: getattr_setattr)
    have fin: "finite {n. getattr ?r n \<noteq> None}"
      unfolding set_eq using Cons.prems(2) by simp
    have le: "card {n. getattr ?r n \<noteq> None} \<le> card {n. getattr r n \<noteq> None} + 1"
      unfolding set_eq using Cons.prems(2) by (simp add: card_insert_if)
    from Some Cons.prems column have "map_columns p hdr (Suc i) vs ?r = Inr r'" by simp
    from Cons.IH [OF this fin] le show ?thesis
      by (simp add: setattr_def)
  qed
qed

lemma those_Some_all: "those xs = Some ys \<Longrightarrow> None \<notin> set xs"
  by (induction xs arbitrary: ys) (auto split: option.splits)

lemma str_result_needs_all:
  assumes "str_result r = Inr line"
  shows "set (str_attrs (cls r)) \<subseteq> {n. getattr r n \<noteq> None}"
proof -
  from assms obtain ys where "those (map (getattr r) (str_attrs (cls r))) = Some ys"
    by (auto simp: str_result_def py_join_def split: option.splits)
  then have "None \<notin> set (map (getattr r) (str_attrs (cls r)))"
    by (rule those_Some_all)
  then show ?thesis by force
qed

lemma str_result_error: "str_result r = Inl e \<Longrightarrow> e = TypeError"
  by (auto simp: str_result_def py_join_def split: option.splits)

lemma rgi_row_of_24_cannot_render:
  assumes "map_columns p hdr 0 row (new_result RgiResult dh) = Inr r"
    and "length row \<le> 24"
  shows "str_result r = Inl TypeError"
proof (cases "str_result r")
  case (Inl e)
  then show ?thesis using str_result_error by simp
next
  case (Inr line)
  have empty: "{n. getattr (new_result RgiResult dh) n \<noteq> None} = {}"
    by (simp add: getattr_new_result)
  from map_columns_assigned [OF assms(1)] empty
  have r: "cls r = RgiResult" "finite {n. getattr r n \<noteq> None}"
    "card {n. getattr r n \<noteq> None} \<le> length row"
    by (simp_all add: new_result_def)
  have "distinct (str_attrs RgiResult)" by simp
  then have "card (set (str_attrs RgiResult)) = 25"
    by (simp add: distinct_card)
  moreover have "card (set (str_attrs RgiResult)) \<le> card {n. getattr r n \<noteq> None}"
    using str_result_needs_all [OF Inr] r(1,2) by (metis card_mono)
  ultimately show ?thesis using r(3) assms(2) by simp
qed


end
